theory Spec2Isabelle
  imports Main
begin

section \<open>Values exchanged with the purchase SDK\<close>

text \<open>
  The RevenueCat types are declared in the package \<^verbatim>\<open>react-native-purchases\<close>; the
  records below keep the fields that the repository reads.  The dictionary
  \<^verbatim>\<open>customerInfo.entitlements.active\<close> has the index signature
  \<^verbatim>\<open>{ [key: string]: PurchasesEntitlementInfo }\<close>; the field \<open>active\<close> is the partial
  map of the entries stored in that object, its active-entitlements set being the map's
  domain.  What reading a key of the object yields is \<open>not_undefined\<close> below.
\<close>

record entitlement_info =
  expirationDate :: "string option"

record entitlement_infos =
  active :: "string \<rightharpoonup> entitlement_info"

record customer_info =
  entitlements :: entitlement_infos

record purchases_package =
  pkg_identifier :: string
  packageType :: string
  priceString :: string

record purchases_offering =
  availablePackages :: "purchases_package list"

record purchases_offerings =
  current :: "purchases_offering option"

text \<open>
  A value thrown by the SDK (\<^verbatim>\<open>PurchasesError\<close>).  The source reads two properties
  of it: \<^verbatim>\<open>message\<close> and \<^verbatim>\<open>userCancelled\<close>; either may be missing
  (\<^verbatim>\<open>undefined\<close> or \<^verbatim>\<open>null\<close>), which is \<open>None\<close>.
\<close>

record purchases_error =
  message :: "string option"
  userCancelled :: "bool option"

text \<open>JavaScript truthiness of \<^verbatim>\<open>err.userCancelled\<close>.\<close>

definition truthy :: "bool option \<Rightarrow> bool" where
  "truthy b = (case b of None \<Rightarrow> False | Some v \<Rightarrow> v)"

text \<open>
  The operator \<^verbatim>\<open>a || b\<close> on a string that may be missing: the right operand is
  taken when the left one is \<^verbatim>\<open>undefined\<close> or the empty string.
\<close>

definition or_else :: "string option \<Rightarrow> string \<Rightarrow> string" where
  "or_else a b = (case a of None \<Rightarrow> b | Some x \<Rightarrow> (if x = [] then b else x))"

text \<open>
  A settled promise: \<open>Inl err\<close> is a rejection with the thrown value, \<open>Inr v\<close> a
  resolution.  A function of the service layer also writes to the console; its result
  is the lines written together with the settled promise.
\<close>

datatype console_line =
    Console_log string
  | Console_warn string
  | Console_error string purchases_error

type_synonym 'a settled = "purchases_error + 'a"

type_synonym 'a logged = "console_line list \<times> 'a settled"

text \<open>
  What the SDK answers when it is called.  \<^verbatim>\<open>Purchases.purchasePackage\<close> and
  \<^verbatim>\<open>Purchases.logIn\<close> resolve to an object of which the source keeps the
  \<^verbatim>\<open>customerInfo\<close> property only; that property is the resolved value here.
\<close>

record sdk =
  Purchases_configure :: "string \<Rightarrow> unit settled"
  Purchases_getOfferings :: "purchases_offerings settled"
  Purchases_getCustomerInfo :: "customer_info settled"
  Purchases_purchasePackage :: "purchases_package \<Rightarrow> customer_info settled"
  Purchases_restorePurchases :: "customer_info settled"
  Purchases_logIn :: "string \<Rightarrow> customer_info settled"
  Purchases_logOut :: "customer_info settled"

section \<open>The purchases service (services/purchases.ts)\<close>

text \<open>
  The build environment: \<^verbatim>\<open>__DEV__\<close>, \<^verbatim>\<open>Platform.OS\<close> and the two variables of
  \<^verbatim>\<open>process.env\<close> (\<open>None\<close> when a variable is not set).
\<close>

record env =
  DEV :: bool
  Platform_OS :: string
  EXPO_PUBLIC_REVENUECAT_IOS_KEY :: "string option"
  EXPO_PUBLIC_REVENUECAT_ANDROID_KEY :: "string option"

definition IOS_API_KEY :: "env \<Rightarrow> string" where
  "IOS_API_KEY e = or_else (EXPO_PUBLIC_REVENUECAT_IOS_KEY e) []"

definition ANDROID_API_KEY :: "env \<Rightarrow> string" where
  "ANDROID_API_KEY e = or_else (EXPO_PUBLIC_REVENUECAT_ANDROID_KEY e) []"

datatype LOG_LEVEL = DEBUG | INFO

text \<open>
  The level handed to \<^verbatim>\<open>Purchases.setLogLevel\<close>.  That call is not awaited and
  its result is not read, so it has no part in what \<open>initializePurchases\<close> returns.
\<close>

definition logLevel :: "env \<Rightarrow> LOG_LEVEL" where
  "logLevel e = (if DEV e then DEBUG else INFO)"

definition apiKey :: "env \<Rightarrow> string" where
  "apiKey e = (if Platform_OS e = ''ios'' then IOS_API_KEY e else ANDROID_API_KEY e)"

definition initializePurchases :: "env \<Rightarrow> sdk \<Rightarrow> unit logged" where
  "initializePurchases e P =
     (if apiKey e = [] then
        ([Console_warn (''[Purchases] RevenueCat API key not configured. '' @
            ''Set EXPO_PUBLIC_REVENUECAT_IOS_KEY or EXPO_PUBLIC_REVENUECAT_ANDROID_KEY'')],
         Inr ())
      else
        (case Purchases_configure P (apiKey e) of
           Inr _ \<Rightarrow> ([Console_log ''[Purchases] RevenueCat initialized successfully''], Inr ())
         | Inl err \<Rightarrow> ([Console_error ''[Purchases] Failed to initialize:'' err], Inr ())))"

definition getOfferings :: "sdk \<Rightarrow> purchases_offerings logged" where
  "getOfferings P =
     (case Purchases_getOfferings P of
        Inr offs \<Rightarrow> ([], Inr offs)
      | Inl err \<Rightarrow> ([Console_error ''[Purchases] Failed to get offerings:'' err], Inl err))"

text \<open>The service's \<^verbatim>\<open>purchasePackage\<close>, under the name the context imports it by.\<close>

definition doPurchase :: "sdk \<Rightarrow> purchases_package \<Rightarrow> customer_info logged" where
  "doPurchase P pkg =
     (case Purchases_purchasePackage P pkg of
        Inr info \<Rightarrow> ([], Inr info)
      | Inl err \<Rightarrow>
          (if truthy (userCancelled err)
           then ([Console_log ''[Purchases] User cancelled purchase''], Inl err)
           else ([Console_error ''[Purchases] Purchase failed:'' err], Inl err)))"

text \<open>The service's \<^verbatim>\<open>restorePurchases\<close>, under the name the context imports it by.\<close>

definition doRestore :: "sdk \<Rightarrow> customer_info logged" where
  "doRestore P =
     (case Purchases_restorePurchases P of
        Inr info \<Rightarrow> ([], Inr info)
      | Inl err \<Rightarrow> ([Console_error ''[Purchases] Failed to restore purchases:'' err], Inl err))"

definition getCustomerInfo :: "sdk \<Rightarrow> customer_info logged" where
  "getCustomerInfo P =
     (case Purchases_getCustomerInfo P of
        Inr info \<Rightarrow> ([], Inr info)
      | Inl err \<Rightarrow> ([Console_error ''[Purchases] Failed to get customer info:'' err], Inl err))"

definition identifyUser :: "sdk \<Rightarrow> string \<Rightarrow> customer_info logged" where
  "identifyUser P userId =
     (case Purchases_logIn P userId of
        Inr info \<Rightarrow> ([], Inr info)
      | Inl err \<Rightarrow> ([Console_error ''[Purchases] Failed to identify user:'' err], Inl err))"

definition logOutUser :: "sdk \<Rightarrow> customer_info logged" where
  "logOutUser P =
     (case Purchases_logOut P of
        Inr info \<Rightarrow> ([], Inr info)
      | Inl err \<Rightarrow> ([Console_error ''[Purchases] Failed to log out:'' err], Inl err))"

section \<open>The purchase context (PurchaseProvider)\<close>

text \<open>
  The five \<^verbatim>\<open>useState\<close> cells of the provider, and the console output so far.  The
  console is not React state; it is carried along so that what the code logs can be
  stated.  Every setter call of the source stores a value that does not depend on the
  cell's content, so the cells after a run of setter calls are those of the record
  updates applied in the same order.
\<close>

record purchase_state =
  isInitialized :: bool
  isLoading :: bool
  offerings :: "purchases_offerings option"
  customerInfo :: "customer_info option"
  error :: "string option"
  console :: "console_line list"

definition initial_state :: purchase_state where
  "initial_state =
     \<lparr>isInitialized = False, isLoading = True, offerings = None, customerInfo = None,
      error = None, console = []\<rparr>"

text \<open>
  The dictionary of a snapshot is an ordinary JavaScript object.  The read
  \<^verbatim>\<open>obj[key]\<close> yields the entry stored under \<open>key\<close> when there is one, and otherwise
  what the object inherits under that name from \<^verbatim>\<open>Object.prototype\<close>; it is
  \<^verbatim>\<open>undefined\<close> only when there is neither.  The list names the properties of
  \<^verbatim>\<open>Object.prototype\<close>, and \<open>not_undefined obj key\<close> is the test
  \<^verbatim>\<open>obj[key] !== undefined\<close>.
\<close>

definition Object_prototype_properties :: "string list" where
  "Object_prototype_properties =
     [''constructor'', ''hasOwnProperty'', ''isPrototypeOf'', ''propertyIsEnumerable'',
      ''toLocaleString'', ''toString'', ''valueOf'', ''__proto__'',
      ''__defineGetter__'', ''__defineSetter__'', ''__lookupGetter__'', ''__lookupSetter__'']"

definition not_undefined :: "(string \<rightharpoonup> 'v) \<Rightarrow> string \<Rightarrow> bool" where
  "not_undefined obj key =
     (case obj key of
        Some _ \<Rightarrow> True
      | None \<Rightarrow> key \<in> set Object_prototype_properties)"

text \<open>
  \<^verbatim>\<open>customerInfo?.entitlements.active[premiumEntitlementId] !== undefined\<close>, computed
  on every render from the \<^verbatim>\<open>customerInfo\<close> cell.  With the cell absent the optional
  chain is \<^verbatim>\<open>undefined\<close> and the test is false.
\<close>

definition isPremium :: "string \<Rightarrow> purchase_state \<Rightarrow> bool" where
  "isPremium premiumEntitlementId s =
     (case customerInfo s of
        None \<Rightarrow> False
      | Some info \<Rightarrow> not_undefined (active (entitlements info)) premiumEntitlementId)"

definition checkEntitlement :: "purchase_state \<Rightarrow> string \<Rightarrow> bool" where
  "checkEntitlement s entitlementId =
     (case customerInfo s of
        None \<Rightarrow> False
      | Some info \<Rightarrow> not_undefined (active (entitlements info)) entitlementId)"

text \<open>
  An \<^verbatim>\<open>async\<close> function runs up to its \<^verbatim>\<open>await\<close>, and its continuation runs when
  the awaited promise has settled.  Each operation below is given by what it does before
  the \<^verbatim>\<open>await\<close> (\<open>_start\<close>, where it stores anything) and by its continuation
  (\<open>_settle\<close>), which takes the settled outcome of the service call and returns the
  cells together with the settled promise of the operation itself.  The lines that the
  service call logs are written before the continuation runs.
\<close>

subsection \<open>The initialization effect\<close>

text \<open>
  The continuation after \<^verbatim>\<open>await initializePurchases()\<close>: on a resolution
  \<^verbatim>\<open>setIsInitialized(true)\<close>, after which the two fetches are started; on a rejection
  the \<^verbatim>\<open>catch\<close> and \<^verbatim>\<open>finally\<close> blocks.
\<close>

definition init_settle :: "unit logged \<Rightarrow> purchase_state \<Rightarrow> purchase_state" where
  "init_settle r s =
     (case snd r of
        Inr _ \<Rightarrow> s\<lparr>console := console s @ fst r, isInitialized := True\<rparr>
      | Inl err \<Rightarrow>
          s\<lparr>console := console s @ fst r @
                 [Console_error ''[PurchaseContext] Initialization failed:'' err],
             error := Some ''Failed to initialize purchases'',
             isLoading := False\<rparr>)"

text \<open>\<^verbatim>\<open>promise.catch(() => null)\<close>: the resolved value, or \<^verbatim>\<open>null\<close> on a rejection.\<close>

definition catch_null :: "'a settled \<Rightarrow> 'a option" where
  "catch_null r = (case r of Inr v \<Rightarrow> Some v | Inl _ \<Rightarrow> None)"

text \<open>
  The continuation after \<^verbatim>\<open>await Promise.all([...])\<close>.  Both members have a
  \<^verbatim>\<open>catch\<close> handler, so the joined promise resolves; the \<^verbatim>\<open>finally\<close> block
  follows.  The lines of the two fetches are appended in the order of the array.
\<close>

definition init_fetched ::
  "purchases_offerings logged \<Rightarrow> customer_info logged \<Rightarrow> purchase_state \<Rightarrow> purchase_state" where
  "init_fetched ro rc s =
     (let offeringsData = catch_null (snd ro);
          customerData = catch_null (snd rc)
      in s\<lparr>console := console s @ fst ro @ fst rc,
            offerings := offeringsData,
            customerInfo := customerData,
            isLoading := False\<rparr>)"

text \<open>
  The body of \<^verbatim>\<open>init\<close>, given the settled outcome \<open>r\<close> of the awaited call of
  \<^verbatim>\<open>initializePurchases\<close>.
\<close>

definition init_body :: "unit logged \<Rightarrow> sdk \<Rightarrow> purchase_state \<Rightarrow> purchase_state" where
  "init_body r P s =
     (case snd r of
        Inr _ \<Rightarrow> init_fetched (getOfferings P) (getCustomerInfo P) (init_settle r s)
      | Inl _ \<Rightarrow> init_settle r s)"

definition init :: "env \<Rightarrow> sdk \<Rightarrow> purchase_state \<Rightarrow> purchase_state" where
  "init e P s = init_body (initializePurchases e P) P s"

subsection \<open>purchasePackage and restorePurchases\<close>

definition purchasePackage_start :: "purchase_state \<Rightarrow> purchase_state" where
  "purchasePackage_start s = s\<lparr>isLoading := True, error := None\<rparr>"

definition purchasePackage_settle ::
  "customer_info logged \<Rightarrow> purchase_state \<Rightarrow> purchase_state \<times> bool settled" where
  "purchasePackage_settle r s =
     (let s1 = s\<lparr>console := console s @ fst r\<rparr> in
      case snd r of
        Inr info \<Rightarrow> (s1\<lparr>customerInfo := Some info, isLoading := False\<rparr>, Inr True)
      | Inl err \<Rightarrow>
          ((if \<not> truthy (userCancelled err)
            then s1\<lparr>error := Some (or_else (message err) ''Purchase failed'')\<rparr>
            else s1)\<lparr>isLoading := False\<rparr>,
           Inr False))"

definition purchasePackage ::
  "sdk \<Rightarrow> purchases_package \<Rightarrow> purchase_state \<Rightarrow> purchase_state \<times> bool settled" where
  "purchasePackage P pkg s = purchasePackage_settle (doPurchase P pkg) (purchasePackage_start s)"

definition restorePurchases_start :: "purchase_state \<Rightarrow> purchase_state" where
  "restorePurchases_start s = s\<lparr>isLoading := True, error := None\<rparr>"

definition restorePurchases_settle ::
  "customer_info logged \<Rightarrow> purchase_state \<Rightarrow> purchase_state \<times> bool settled" where
  "restorePurchases_settle r s =
     (let s1 = s\<lparr>console := console s @ fst r\<rparr> in
      case snd r of
        Inr info \<Rightarrow> (s1\<lparr>customerInfo := Some info, isLoading := False\<rparr>, Inr True)
      | Inl err \<Rightarrow>
          (s1\<lparr>error := Some (or_else (message err) ''Failed to restore purchases''),
              isLoading := False\<rparr>,
           Inr False))"

definition restorePurchases :: "sdk \<Rightarrow> purchase_state \<Rightarrow> purchase_state \<times> bool settled" where
  "restorePurchases P s = restorePurchases_settle (doRestore P) (restorePurchases_start s)"

subsection \<open>refreshCustomerInfo, login and logout\<close>

text \<open>
  These three store nothing before the \<^verbatim>\<open>await\<close>.  Their continuations differ in
  the line logged on a rejection only.
\<close>

definition refreshCustomerInfo_settle ::
  "customer_info logged \<Rightarrow> purchase_state \<Rightarrow> purchase_state \<times> unit settled" where
  "refreshCustomerInfo_settle r s =
     (let s1 = s\<lparr>console := console s @ fst r\<rparr> in
      case snd r of
        Inr info \<Rightarrow> (s1\<lparr>customerInfo := Some info\<rparr>, Inr ())
      | Inl err \<Rightarrow>
          (s1\<lparr>console := console s1 @
                  [Console_error ''[PurchaseContext] Failed to refresh customer info:'' err]\<rparr>,
           Inr ()))"

definition refreshCustomerInfo :: "sdk \<Rightarrow> purchase_state \<Rightarrow> purchase_state \<times> unit settled" where
  "refreshCustomerInfo P s = refreshCustomerInfo_settle (getCustomerInfo P) s"

definition login_settle ::
  "customer_info logged \<Rightarrow> purchase_state \<Rightarrow> purchase_state \<times> unit settled" where
  "login_settle r s =
     (let s1 = s\<lparr>console := console s @ fst r\<rparr> in
      case snd r of
        Inr info \<Rightarrow> (s1\<lparr>customerInfo := Some info\<rparr>, Inr ())
      | Inl err \<Rightarrow>
          (s1\<lparr>console := console s1 @ [Console_error ''[PurchaseContext] Login failed:'' err]\<rparr>,
           Inr ()))"

definition login :: "sdk \<Rightarrow> string \<Rightarrow> purchase_state \<Rightarrow> purchase_state \<times> unit settled" where
  "login P userId s = login_settle (identifyUser P userId) s"

definition logout_settle ::
  "customer_info logged \<Rightarrow> purchase_state \<Rightarrow> purchase_state \<times> unit settled" where
  "logout_settle r s =
     (let s1 = s\<lparr>console := console s @ fst r\<rparr> in
      case snd r of
        Inr info \<Rightarrow> (s1\<lparr>customerInfo := Some info\<rparr>, Inr ())
      | Inl err \<Rightarrow>
          (s1\<lparr>console := console s1 @ [Console_error ''[PurchaseContext] Logout failed:'' err]\<rparr>,
           Inr ()))"

definition logout :: "sdk \<Rightarrow> purchase_state \<Rightarrow> purchase_state \<times> unit settled" where
  "logout P s = logout_settle (logOutUser P) s"

section \<open>Scenario values\<close>

text \<open>
  Concrete snapshots, errors, environments and SDK behaviours, on which the theorems below
  are instantiated: the scenarios of the specification's testable properties.
\<close>

definition premium_snapshot :: customer_info where
  "premium_snapshot =
     \<lparr>entitlements = \<lparr>active = [''premium'' \<mapsto> \<lparr>expirationDate = Some ''2026-01-01''\<rparr>]\<rparr>\<rparr>"

definition empty_snapshot :: customer_info where
  "empty_snapshot = \<lparr>entitlements = \<lparr>active = Map.empty\<rparr>\<rparr>"

definition pkgAnnual :: purchases_package where
  "pkgAnnual = \<lparr>pkg_identifier = ''$rc_annual'', packageType = ''ANNUAL'', priceString = ''$49.99''\<rparr>"

definition catalog :: purchases_offerings where
  "catalog = \<lparr>current = Some \<lparr>availablePackages = [pkgAnnual]\<rparr>\<rparr>"

definition cancelled_error :: purchases_error where
  "cancelled_error = \<lparr>message = Some ''Purchase was cancelled.'', userCancelled = Some True\<rparr>"

definition network_error :: purchases_error where
  "network_error = \<lparr>message = Some ''Network request failed'', userCancelled = Some False\<rparr>"

definition env_ios :: env where
  "env_ios = \<lparr>DEV = False, Platform_OS = ''ios'',
     EXPO_PUBLIC_REVENUECAT_IOS_KEY = Some ''appl_key'', EXPO_PUBLIC_REVENUECAT_ANDROID_KEY = None\<rparr>"

text \<open>An Android build in which only the iOS key is set: its API key is empty.\<close>

definition env_nokey :: env where
  "env_nokey = \<lparr>DEV = True, Platform_OS = ''android'',
     EXPO_PUBLIC_REVENUECAT_IOS_KEY = Some ''appl_key'', EXPO_PUBLIC_REVENUECAT_ANDROID_KEY = None\<rparr>"

definition sdk_ok :: sdk where
  "sdk_ok =
     \<lparr>Purchases_configure = (\<lambda>_. Inr ()),
      Purchases_getOfferings = Inr catalog,
      Purchases_getCustomerInfo = Inr empty_snapshot,
      Purchases_purchasePackage = (\<lambda>_. Inr premium_snapshot),
      Purchases_restorePurchases = Inr empty_snapshot,
      Purchases_logIn = (\<lambda>_. Inr premium_snapshot),
      Purchases_logOut = Inr empty_snapshot\<rparr>"

definition sdk_down :: sdk where
  "sdk_down =
     \<lparr>Purchases_configure = (\<lambda>_. Inl network_error),
      Purchases_getOfferings = Inl network_error,
      Purchases_getCustomerInfo = Inl network_error,
      Purchases_purchasePackage = (\<lambda>_. Inl network_error),
      Purchases_restorePurchases = Inl network_error,
      Purchases_logIn = (\<lambda>_. Inl network_error),
      Purchases_logOut = Inl network_error\<rparr>"

definition sdk_cancel :: sdk where
  "sdk_cancel = sdk_ok\<lparr>Purchases_purchasePackage := (\<lambda>_. Inl cancelled_error)\<rparr>"

definition sdk_no_customer :: sdk where
  "sdk_no_customer = sdk_ok\<lparr>Purchases_getCustomerInfo := Inl network_error\<rparr>"

text \<open>The session after a successful initialization and one failed purchase.\<close>

definition state_after_failure :: purchase_state where
  "state_after_failure =
     fst (purchasePackage sdk_down pkgAnnual (init env_ios sdk_ok initial_state))"

text \<open>
  The session after a successful initialization and a restore that resolves to a
  snapshot without entitlements.
\<close>

definition state_after_empty_restore :: purchase_state where
  "state_after_empty_restore =
     fst (restorePurchases sdk_ok (init env_ios sdk_ok initial_state))"

section \<open>Auxiliary facts\<close>

lemmas service_defs =
  initializePurchases_def getOfferings_def doPurchase_def doRestore_def getCustomerInfo_def
  identifyUser_def logOutUser_def

lemmas scenario_defs =
  premium_snapshot_def empty_snapshot_def pkgAnnual_def catalog_def cancelled_error_def
  network_error_def env_ios_def env_nokey_def sdk_ok_def sdk_down_def sdk_cancel_def
  sdk_no_customer_def
  state_after_failure_def state_after_empty_restore_def initial_state_def apiKey_def IOS_API_KEY_def ANDROID_API_KEY_def

lemma truthy_iff: "truthy b \<longleftrightarrow> b = Some True"
  by (cases b) (simp_all add: truthy_def)

text \<open>
  The test \<^verbatim>\<open>obj[key] !== undefined\<close> holds of the stored keys and of the inherited
  names, and of nothing else.
\<close>

lemma not_undefined_iff:
  "not_undefined obj key \<longleftrightarrow> key \<in> dom obj \<or> key \<in> set Object_prototype_properties"
  by (auto simp add: not_undefined_def split: option.split)

lemma state_after_empty_restore_snapshot:
  "customerInfo state_after_empty_restore = Some empty_snapshot"
  by (simp add: state_after_empty_restore_def restorePurchases_def restorePurchases_settle_def
      doRestore_def sdk_ok_def Let_def)

lemma empty_snapshot_active: "active (entitlements empty_snapshot) = Map.empty"
  by (simp add: empty_snapshot_def)

section \<open>purchasePackage: a cancelled purchase\<close>

text \<open>
  Claim C1, as amended.  When the SDK's purchase call throws an error whose
  \<^verbatim>\<open>userCancelled\<close> is true, \<open>purchasePackage\<close> resolves to \<^verbatim>\<open>false\<close> and leaves
  the \<open>error\<close> cell absent: the cell is cleared before the call and the \<^verbatim>\<open>catch\<close>
  block does not store into it.  The cell therefore has its value from before the call
  exactly when that value was absent.
\<close>

theorem purchasePackage_cancelled:
  assumes "Purchases_purchasePackage P pkg = Inl err" and "userCancelled err = Some True"
  shows "error (fst (purchasePackage P pkg s)) = None \<and>
         (error (fst (purchasePackage P pkg s)) = error s \<longleftrightarrow> error s = None) \<and>
         snd (purchasePackage P pkg s) = Inr False"
  using assms
  by (auto simp add: purchasePackage_def purchasePackage_settle_def purchasePackage_start_def
      doPurchase_def truthy_iff Let_def)

text \<open>The theorem at a cancelled purchase of the annual package in the initial session.\<close>

theorem purchasePackage_cancelled_witness:
  "Purchases_purchasePackage sdk_cancel pkgAnnual = Inl cancelled_error \<and>
   userCancelled cancelled_error = Some True \<and>
   error (fst (purchasePackage sdk_cancel pkgAnnual initial_state)) = None \<and>
   snd (purchasePackage sdk_cancel pkgAnnual initial_state) = Inr False"
proof -
  have call: "Purchases_purchasePackage sdk_cancel pkgAnnual = Inl cancelled_error"
    by (simp add: sdk_cancel_def)
  have flag: "userCancelled cancelled_error = Some True"
    by (simp add: cancelled_error_def)
  from purchasePackage_cancelled [OF call flag, of initial_state] call flag
  show ?thesis by blast
qed

text \<open>
  Claim C1 as stated fails: after a purchase that failed with a network error the
  \<open>error\<close> cell holds the SDK's message, and a cancelled purchase that follows clears it,
  so the cell does not keep its value from before the call.
\<close>

theorem purchasePackage_cancelled_clears_error:
  "Purchases_purchasePackage sdk_cancel pkgAnnual = Inl cancelled_error \<and>
   userCancelled cancelled_error = Some True \<and>
   error state_after_failure = Some ''Network request failed'' \<and>
   error (fst (purchasePackage sdk_cancel pkgAnnual state_after_failure)) = None \<and>
   error (fst (purchasePackage sdk_cancel pkgAnnual state_after_failure)) \<noteq>
     error state_after_failure"
  by (simp add: scenario_defs purchasePackage_def purchasePackage_settle_def
      purchasePackage_start_def doPurchase_def truthy_def or_else_def Let_def)

section \<open>The initialization effect: a failing vendor initialization\<close>

text \<open>
  Claim C2 fails on the code.  With a configured iOS key and an SDK of which every call
  rejects, \<^verbatim>\<open>Purchases.configure\<close> among them, \<open>initializePurchases\<close> catches the
  rejection and resolves, so the \<^verbatim>\<open>catch\<close> block of \<open>init\<close> is not entered: the
  session ends with \<open>isInitialized\<close> true and the \<open>error\<close> cell absent, where the claim
  has \<open>isInitialized\<close> false and the generic message.
\<close>

theorem init_configure_failure_swallowed:
  "apiKey env_ios \<noteq> [] \<and>
   Purchases_configure sdk_down (apiKey env_ios) = Inl network_error \<and>
   snd (initializePurchases env_ios sdk_down) = Inr () \<and>
   isInitialized (init env_ios sdk_down initial_state) \<and>
   error (init env_ios sdk_down initial_state) = None \<and>
   \<not> isLoading (init env_ios sdk_down initial_state)"
  by (simp add: scenario_defs init_def init_body_def init_settle_def init_fetched_def
      service_defs Let_def or_else_def)

section \<open>The premium flag\<close>

text \<open>
  In every state \<open>isPremium\<close> for the configured identifier is \<open>checkEntitlement\<close> of
  that identifier on the same \<open>customerInfo\<close> cell; both are false when the cell is
  absent, and on a held snapshot both hold exactly of the identifiers stored in the
  snapshot's active entitlements and of the inherited names.
\<close>

lemma isPremium_eq_checkEntitlement:
  "isPremium premiumEntitlementId s = checkEntitlement s premiumEntitlementId"
  by (simp add: isPremium_def checkEntitlement_def)

lemma checkEntitlement_iff:
  "checkEntitlement s entitlementId \<longleftrightarrow>
     (\<exists>info. customerInfo s = Some info \<and>
        (entitlementId \<in> dom (active (entitlements info)) \<or>
         entitlementId \<in> set Object_prototype_properties))"
  by (auto simp add: checkEntitlement_def not_undefined_iff split: option.split)

text \<open>
  Claim C3 fails on the code when the configured identifier names a property of
  \<^verbatim>\<open>Object.prototype\<close>.  In the session that holds a snapshot without entitlements,
  with the configured identifier \<^verbatim>\<open>constructor\<close>, \<open>isPremium\<close> is true although the
  identifier is not in the snapshot's active-entitlements set; it agrees with
  \<open>checkEntitlement\<close> there, as everywhere.
\<close>

theorem isPremium_inherited_property:
  "customerInfo state_after_empty_restore = Some empty_snapshot \<and>
   ''constructor'' \<notin> dom (active (entitlements empty_snapshot)) \<and>
   isPremium ''constructor'' state_after_empty_restore \<and>
   isPremium ''constructor'' state_after_empty_restore =
     checkEntitlement state_after_empty_restore ''constructor''"
proof -
  have held: "customerInfo state_after_empty_restore = Some empty_snapshot"
    by (rule state_after_empty_restore_snapshot)
  have absent: "''constructor'' \<notin> dom (active (entitlements empty_snapshot))"
    by (simp add: empty_snapshot_active)
  have flag: "isPremium ''constructor'' state_after_empty_restore"
    by (simp add: isPremium_def held not_undefined_def empty_snapshot_active
        Object_prototype_properties_def)
  from held absent flag isPremium_eq_checkEntitlement [of "''constructor''"]
  show ?thesis by simp
qed

section \<open>The loading flag is released\<close>

text \<open>
  Claim C4.  After \<open>purchasePackage\<close> and after \<open>restorePurchases\<close>, whatever the SDK
  \<open>P\<close> answers (a snapshot, an error, a cancellation), \<open>isLoading\<close> is false.  The same
  holds of either continuation alone, from any state \<open>s\<close> and for any settled outcome
  \<open>r\<close> of the service call.
\<close>

theorem loading_released:
  "isLoading (fst (purchasePackage P pkg s)) = False \<and>
   isLoading (fst (restorePurchases P s)) = False \<and>
   isLoading (fst (purchasePackage_settle r s)) = False \<and>
   isLoading (fst (restorePurchases_settle r s)) = False"
  by (simp add: purchasePackage_def restorePurchases_def purchasePackage_settle_def
      restorePurchases_settle_def Let_def split: sum.split)

text \<open>The theorem at a cancelled purchase and at a failed restore.\<close>

theorem loading_released_witness:
  "isLoading (fst (purchasePackage sdk_cancel pkgAnnual initial_state)) = False \<and>
   isLoading (fst (restorePurchases sdk_down initial_state)) = False"
  using loading_released [of sdk_cancel pkgAnnual initial_state]
    loading_released [of sdk_down pkgAnnual initial_state]
  by blast

section \<open>purchasePackage: success and failure\<close>

text \<open>
  Claim C5.  When the SDK's purchase call resolves to a snapshot, \<open>purchasePackage\<close>
  stores that snapshot in the \<open>customerInfo\<close> cell in place of the previous one and
  resolves to \<^verbatim>\<open>true\<close>; \<open>isPremium\<close> then holds when the snapshot's active
  entitlements contain the configured identifier, and otherwise only for an identifier
  that names an inherited property.  When the call throws an error that is
  not a user cancellation, the \<open>error\<close> cell receives the error's message, or
  \<^verbatim>\<open>Purchase failed\<close> when the message is missing or empty, and \<open>purchasePackage\<close>
  resolves to \<^verbatim>\<open>false\<close>.
\<close>

theorem purchasePackage_outcomes:
  "(Purchases_purchasePackage P pkg = Inr info \<longrightarrow>
      customerInfo (fst (purchasePackage P pkg s)) = Some info \<and>
      snd (purchasePackage P pkg s) = Inr True \<and>
      (premiumEntitlementId \<in> dom (active (entitlements info)) \<longrightarrow>
         isPremium premiumEntitlementId (fst (purchasePackage P pkg s))) \<and>
      (isPremium premiumEntitlementId (fst (purchasePackage P pkg s)) \<longleftrightarrow>
         premiumEntitlementId \<in> dom (active (entitlements info)) \<or>
         premiumEntitlementId \<in> set Object_prototype_properties)) \<and>
   (Purchases_purchasePackage P pkg = Inl err \<and> userCancelled err \<noteq> Some True \<longrightarrow>
      error (fst (purchasePackage P pkg s)) =
        Some (case message err of
                None \<Rightarrow> ''Purchase failed''
              | Some m \<Rightarrow> if m = [] then ''Purchase failed'' else m) \<and>
      snd (purchasePackage P pkg s) = Inr False)"
  by (auto simp add: purchasePackage_def purchasePackage_settle_def purchasePackage_start_def
      doPurchase_def truthy_iff isPremium_def not_undefined_iff or_else_def Let_def
      split: option.split)

text \<open>
  The theorem at the purchase of the annual package that resolves to a snapshot with the
  entitlement \<^verbatim>\<open>premium\<close>, and at a purchase that fails with a network error.
\<close>

theorem purchasePackage_outcomes_witness:
  "Purchases_purchasePackage sdk_ok pkgAnnual = Inr premium_snapshot \<and>
   ''premium'' \<in> dom (active (entitlements premium_snapshot)) \<and>
   isPremium ''premium'' (fst (purchasePackage sdk_ok pkgAnnual initial_state)) \<and>
   snd (purchasePackage sdk_ok pkgAnnual initial_state) = Inr True \<and>
   Purchases_purchasePackage sdk_down pkgAnnual = Inl network_error \<and>
   userCancelled network_error \<noteq> Some True \<and>
   error (fst (purchasePackage sdk_down pkgAnnual initial_state)) =
     Some ''Network request failed'' \<and>
   snd (purchasePackage sdk_down pkgAnnual initial_state) = Inr False"
proof -
  have ok: "Purchases_purchasePackage sdk_ok pkgAnnual = Inr premium_snapshot"
    by (simp add: sdk_ok_def)
  have member: "''premium'' \<in> dom (active (entitlements premium_snapshot))"
    by (simp add: premium_snapshot_def)
  have down: "Purchases_purchasePackage sdk_down pkgAnnual = Inl network_error"
    by (simp add: sdk_down_def)
  have flag: "userCancelled network_error \<noteq> Some True"
    by (simp add: network_error_def)
  have msg: "message network_error = Some ''Network request failed''"
    by (simp add: network_error_def)
  from purchasePackage_outcomes
    [of sdk_ok pkgAnnual premium_snapshot initial_state "''premium''"] ok member
  have granted:
    "isPremium ''premium'' (fst (purchasePackage sdk_ok pkgAnnual initial_state)) \<and>
     snd (purchasePackage sdk_ok pkgAnnual initial_state) = Inr True"
    by blast
  from purchasePackage_outcomes [of sdk_down pkgAnnual _ initial_state _ network_error]
    down flag msg
  have failed:
    "error (fst (purchasePackage sdk_down pkgAnnual initial_state)) =
       Some ''Network request failed'' \<and>
     snd (purchasePackage sdk_down pkgAnnual initial_state) = Inr False"
    by simp
  from ok member down flag granted failed show ?thesis by blast
qed

section \<open>restorePurchases\<close>

text \<open>
  \<open>restorePurchases\<close> resolves to \<^verbatim>\<open>true\<close> exactly when the SDK's restore call
  resolves, and the returned snapshot is then stored.  When the call throws, whatever
  the error's \<^verbatim>\<open>userCancelled\<close> says, the \<open>error\<close> cell receives the error's message,
  or \<^verbatim>\<open>Failed to restore purchases\<close> when the message is missing or empty, and the
  result is \<^verbatim>\<open>false\<close>.
\<close>

lemma restorePurchases_result:
  "(snd (restorePurchases P s) = Inr True \<longleftrightarrow>
      (\<exists>info. Purchases_restorePurchases P = Inr info)) \<and>
   (Purchases_restorePurchases P = Inr info \<longrightarrow>
      customerInfo (fst (restorePurchases P s)) = Some info) \<and>
   (Purchases_restorePurchases P = Inl err \<longrightarrow>
      error (fst (restorePurchases P s)) =
        Some (case message err of
                None \<Rightarrow> ''Failed to restore purchases''
              | Some m \<Rightarrow> if m = [] then ''Failed to restore purchases'' else m) \<and>
      snd (restorePurchases P s) = Inr False)"
  by (auto simp add: restorePurchases_def restorePurchases_settle_def restorePurchases_start_def
      doRestore_def or_else_def Let_def split: option.split sum.split)

text \<open>
  Claim C6 fails on the code in its statement about the premium flag, when the configured
  identifier names a property of \<^verbatim>\<open>Object.prototype\<close>.  A restore that resolves to a
  snapshot without active entitlements returns \<^verbatim>\<open>true\<close>, and with the configured
  identifier \<^verbatim>\<open>constructor\<close> the flag \<open>isPremium\<close> is then true, where the claim has
  it false; with the default identifier \<^verbatim>\<open>premium\<close> it is false.
\<close>

theorem restorePurchases_empty_snapshot_premium:
  "Purchases_restorePurchases sdk_ok = Inr empty_snapshot \<and>
   active (entitlements empty_snapshot) = Map.empty \<and>
   snd (restorePurchases sdk_ok initial_state) = Inr True \<and>
   customerInfo (fst (restorePurchases sdk_ok initial_state)) = Some empty_snapshot \<and>
   isPremium ''constructor'' (fst (restorePurchases sdk_ok initial_state)) \<and>
   \<not> isPremium ''premium'' (fst (restorePurchases sdk_ok initial_state))"
proof -
  have call: "Purchases_restorePurchases sdk_ok = Inr empty_snapshot"
    by (simp add: sdk_ok_def)
  from restorePurchases_result [of sdk_ok initial_state empty_snapshot] call
  have result:
    "snd (restorePurchases sdk_ok initial_state) = Inr True \<and>
     customerInfo (fst (restorePurchases sdk_ok initial_state)) = Some empty_snapshot"
    by blast
  then have flags:
    "isPremium ''constructor'' (fst (restorePurchases sdk_ok initial_state)) \<and>
     \<not> isPremium ''premium'' (fst (restorePurchases sdk_ok initial_state))"
    by (simp add: isPremium_def not_undefined_def empty_snapshot_active
        Object_prototype_properties_def)
  from call empty_snapshot_active result flags show ?thesis by blast
qed

section \<open>The initialization effect: the two fetches\<close>

text \<open>
  Claim C7.  Started in the initial session, \<open>init\<close> ends with \<open>isInitialized\<close> true and
  \<open>isLoading\<close> false, and each of the cells \<open>offerings\<close> and \<open>customerInfo\<close> is decided
  by its own fetch alone: it holds the fetched value when that fetch resolves and is
  absent when that fetch rejects, whatever the other fetch does.  In particular, when the
  offerings fetch resolves to a catalog and the customer-info fetch rejects, the session
  has the catalog, no snapshot, and \<open>isPremium\<close> false.  This holds for every environment
  and every answer of \<^verbatim>\<open>configure\<close>, so also when the SDK's initialization succeeds.
\<close>

theorem init_fetches_isolated:
  "(Purchases_getOfferings P = Inr cat \<longrightarrow> offerings (init e P initial_state) = Some cat) \<and>
   (Purchases_getOfferings P = Inl err \<longrightarrow> offerings (init e P initial_state) = None) \<and>
   (Purchases_getCustomerInfo P = Inr info \<longrightarrow>
      customerInfo (init e P initial_state) = Some info) \<and>
   (Purchases_getCustomerInfo P = Inl err' \<longrightarrow>
      customerInfo (init e P initial_state) = None \<and>
      \<not> isPremium premiumEntitlementId (init e P initial_state)) \<and>
   isInitialized (init e P initial_state) \<and>
   \<not> isLoading (init e P initial_state)"
  by (auto simp add: init_def init_body_def init_settle_def init_fetched_def
      initializePurchases_def getOfferings_def getCustomerInfo_def catch_null_def
      isPremium_def initial_state_def Let_def split: sum.split)

text \<open>
  The theorem in the scenario of the claim: a configured iOS key, \<^verbatim>\<open>configure\<close> and the
  offerings fetch resolve, the customer-info fetch rejects.
\<close>

theorem init_fetches_isolated_witness:
  "apiKey env_ios \<noteq> [] \<and>
   Purchases_configure sdk_no_customer (apiKey env_ios) = Inr () \<and>
   Purchases_getOfferings sdk_no_customer = Inr catalog \<and>
   Purchases_getCustomerInfo sdk_no_customer = Inl network_error \<and>
   isInitialized (init env_ios sdk_no_customer initial_state) \<and>
   offerings (init env_ios sdk_no_customer initial_state) = Some catalog \<and>
   customerInfo (init env_ios sdk_no_customer initial_state) = None \<and>
   \<not> isLoading (init env_ios sdk_no_customer initial_state) \<and>
   \<not> isPremium ''premium'' (init env_ios sdk_no_customer initial_state)"
proof -
  have key: "apiKey env_ios \<noteq> []"
    by (simp add: apiKey_def IOS_API_KEY_def env_ios_def or_else_def)
  have cfg: "Purchases_configure sdk_no_customer (apiKey env_ios) = Inr ()"
    by (simp add: sdk_no_customer_def sdk_ok_def)
  have offs: "Purchases_getOfferings sdk_no_customer = Inr catalog"
    by (simp add: sdk_no_customer_def sdk_ok_def)
  have cust: "Purchases_getCustomerInfo sdk_no_customer = Inl network_error"
    by (simp add: sdk_no_customer_def sdk_ok_def)
  from init_fetches_isolated
    [of sdk_no_customer catalog env_ios _ _ network_error "''premium''"] key cfg offs cust
  show ?thesis by blast
qed

section \<open>refreshCustomerInfo, login and logout: failures are swallowed\<close>

text \<open>
  Claim C8.  When the SDK call behind \<open>refreshCustomerInfo\<close>, \<open>login\<close> or \<open>logout\<close>
  throws, the operation resolves (nothing is thrown to its caller) and every cell keeps
  its value, the \<open>error\<close> cell and the \<open>customerInfo\<close> cell among them; the only effect is
  two lines on the console, one written by the service and one by the context.
\<close>

theorem passive_failures_swallowed:
  "(Purchases_getCustomerInfo P = Inl err \<longrightarrow>
      fst (refreshCustomerInfo P s) =
        s\<lparr>console := console s @
            [Console_error ''[Purchases] Failed to get customer info:'' err,
             Console_error ''[PurchaseContext] Failed to refresh customer info:'' err]\<rparr> \<and>
      snd (refreshCustomerInfo P s) = Inr ()) \<and>
   (Purchases_logIn P userId = Inl err \<longrightarrow>
      fst (login P userId s) =
        s\<lparr>console := console s @
            [Console_error ''[Purchases] Failed to identify user:'' err,
             Console_error ''[PurchaseContext] Login failed:'' err]\<rparr> \<and>
      snd (login P userId s) = Inr ()) \<and>
   (Purchases_logOut P = Inl err \<longrightarrow>
      fst (logout P s) =
        s\<lparr>console := console s @
            [Console_error ''[Purchases] Failed to log out:'' err,
             Console_error ''[PurchaseContext] Logout failed:'' err]\<rparr> \<and>
      snd (logout P s) = Inr ())"
  by (simp add: refreshCustomerInfo_def refreshCustomerInfo_settle_def login_def
      login_settle_def logout_def logout_settle_def getCustomerInfo_def identifyUser_def
      logOutUser_def Let_def)

text \<open>
  The theorem in the session left by a failed purchase, whose \<open>error\<close> cell is set, with
  an SDK of which every call fails.
\<close>

theorem passive_failures_swallowed_witness:
  "Purchases_getCustomerInfo sdk_down = Inl network_error \<and>
   Purchases_logIn sdk_down ''user-1'' = Inl network_error \<and>
   Purchases_logOut sdk_down = Inl network_error \<and>
   error (fst (refreshCustomerInfo sdk_down state_after_failure)) = error state_after_failure \<and>
   customerInfo (fst (login sdk_down ''user-1'' state_after_failure)) =
     customerInfo state_after_failure \<and>
   error (fst (logout sdk_down state_after_failure)) = error state_after_failure \<and>
   snd (logout sdk_down state_after_failure) = Inr ()"
proof -
  have refresh: "Purchases_getCustomerInfo sdk_down = Inl network_error"
    by (simp add: sdk_down_def)
  have ident: "Purchases_logIn sdk_down ''user-1'' = Inl network_error"
    by (simp add: sdk_down_def)
  have out: "Purchases_logOut sdk_down = Inl network_error"
    by (simp add: sdk_down_def)
  from passive_failures_swallowed [of sdk_down network_error state_after_failure "''user-1''"]
    refresh ident out
  show ?thesis by simp
qed

section \<open>checkEntitlement\<close>

text \<open>
  Claim C9 fails on the code for an identifier that names a property of
  \<^verbatim>\<open>Object.prototype\<close>.  In the session that holds a snapshot without entitlements,
  \<open>checkEntitlement\<close> of \<^verbatim>\<open>toString\<close> is true although the identifier is not a
  member of the snapshot's active-entitlements set; of \<^verbatim>\<open>premium\<close> it is false, and
  in the initial session, before any fetch, it is false of both.
\<close>

theorem checkEntitlement_inherited_property:
  "customerInfo state_after_empty_restore = Some empty_snapshot \<and>
   ''toString'' \<notin> dom (active (entitlements empty_snapshot)) \<and>
   checkEntitlement state_after_empty_restore ''toString'' \<and>
   \<not> checkEntitlement state_after_empty_restore ''premium'' \<and>
   \<not> checkEntitlement initial_state ''toString'' \<and>
   \<not> checkEntitlement initial_state ''premium''"
  by (simp add: state_after_empty_restore_snapshot empty_snapshot_active checkEntitlement_def
      not_undefined_def Object_prototype_properties_def initial_state_def)

section \<open>initializePurchases never rejects\<close>

text \<open>
  Claim C10.  \<open>initializePurchases\<close> resolves for every environment and every SDK: with
  an empty API key it returns after one warning, and a rejection of \<^verbatim>\<open>configure\<close> is
  caught and logged.  Hence \<open>init\<close>, started in the initial session, always ends with
  \<open>isInitialized\<close> true, also when the SDK has not been configured.
\<close>

theorem initializePurchases_never_rejects:
  "snd (initializePurchases e P) = Inr () \<and>
   (apiKey e = [] \<longrightarrow>
      initializePurchases e P =
        ([Console_warn (''[Purchases] RevenueCat API key not configured. '' @
            ''Set EXPO_PUBLIC_REVENUECAT_IOS_KEY or EXPO_PUBLIC_REVENUECAT_ANDROID_KEY'')],
         Inr ())) \<and>
   (apiKey e \<noteq> [] \<and> Purchases_configure P (apiKey e) = Inl err \<longrightarrow>
      initializePurchases e P =
        ([Console_error ''[Purchases] Failed to initialize:'' err], Inr ())) \<and>
   isInitialized (init e P initial_state)"
  by (simp add: initializePurchases_def init_def init_body_def init_settle_def init_fetched_def
      initial_state_def Let_def split: sum.split)

text \<open>
  The theorem for an Android build without an Android key, and for an iOS build with a
  key whose \<^verbatim>\<open>configure\<close> call rejects.
\<close>

theorem initializePurchases_never_rejects_witness:
  "apiKey env_nokey = [] \<and>
   snd (initializePurchases env_nokey sdk_ok) = Inr () \<and>
   isInitialized (init env_nokey sdk_ok initial_state) \<and>
   apiKey env_ios \<noteq> [] \<and>
   Purchases_configure sdk_down (apiKey env_ios) = Inl network_error \<and>
   initializePurchases env_ios sdk_down =
     ([Console_error ''[Purchases] Failed to initialize:'' network_error], Inr ()) \<and>
   isInitialized (init env_ios sdk_down initial_state)"
proof -
  have nokey: "apiKey env_nokey = []"
    by (simp add: apiKey_def ANDROID_API_KEY_def env_nokey_def or_else_def)
  have key: "apiKey env_ios \<noteq> []"
    by (simp add: apiKey_def IOS_API_KEY_def env_ios_def or_else_def)
  have cfg: "Purchases_configure sdk_down (apiKey env_ios) = Inl network_error"
    by (simp add: sdk_down_def)
  from initializePurchases_never_rejects [of env_nokey sdk_ok]
    initializePurchases_never_rejects [of env_ios sdk_down network_error] nokey key cfg
  show ?thesis by blast
qed

end
